theory Spec2Isabelle
  imports Complex_Main
begin

section \<open>Data model of the dashboard (src/dash\_app/app.py)\<close>

text \<open>
  Conventions of the embedding.
  \<^item> Points in time and the clock are integers counting seconds; \<open>hours\<close> and \<open>days\<close>
    convert the offsets of the source.
  \<^item> A float cell is a \<open>real option\<close>: \<open>None\<close> is NaN (the "missing" value that
    \<open>pd.to_numeric(errors='coerce')\<close> produces). Arithmetic on present values is
    exact arithmetic on the reals.
  \<^item> A timestamp cell is an \<open>int option\<close>: \<open>None\<close> is NaT.
  \<^item> Exceptions are values of type \<open>error\<close>; a function that can raise returns
    \<open>error + 'a\<close> with \<open>Inl\<close> for the exception.
\<close>

type_synonym num = "real option"

datatype error = KeyError | TypeError | ValueError | DatabaseError | OSError

text \<open>
  One stored value of a numeric column as \<open>pd.to_numeric\<close> reads it: a number (or a
  text that reads as one), or anything else (NULL, other text).
\<close>

datatype raw_num = RNum real | RNonNumeric

text \<open>
  One stored timestamp as \<open>pd.to_datetime\<close> reads it: a text denoting a point in
  time, NULL, or a text that is no date at all.
\<close>

datatype raw_ts = TsText int | TsNull | TsBad

text \<open>
  The dtype of a timestamp column: \<open>datetime64[ns]\<close> (timezone-naive) or
  \<open>datetime64[ns, tz]\<close> (the stored texts carry a UTC offset).
\<close>

datatype tz = Naive | Aware

text \<open>One row of the table \<open>internet_status\<close>, with the columns of the query.\<close>

record raw_row =
  db_timestamp :: raw_ts
  db_status :: string
  db_success_percentage :: raw_num
  db_avg_latency_ms :: raw_num
  db_max_latency_ms :: raw_num
  db_min_latency_ms :: raw_num
  db_packet_loss :: raw_num

text \<open>
  What is behind a \<open>db_path\<close>: a database that cannot be opened or queried, or the
  rows of the table together with the kind of timestamp texts it holds.
\<close>

datatype store = Unreadable | Readable tz "raw_row list"

text \<open>One row of the DataFrame after the renaming of the query.\<close>

record probe =
  timestamp :: "int option"
  status_message :: string
  success :: num
  avg_latency_ms :: num
  max_latency_ms :: num
  min_latency_ms :: num
  packet_loss :: num

text \<open>
  A DataFrame: its column names, the dtype of its timestamp column, and its rows.
  Only the cells of the named columns are part of the frame; \<open>pd.DataFrame()\<close> has
  neither columns nor rows.
\<close>

datatype frame = Frame (columns: "string list") (ts_tz: tz) (rows: "probe list")

text \<open>\<open>pd.DataFrame()\<close>.\<close>

definition empty_DataFrame :: frame where
  "empty_DataFrame = Frame [] Naive []"

definition all_columns :: "string list" where
  "all_columns = [''timestamp'', ''status_message'', ''success'', ''avg_latency_ms'',
                  ''max_latency_ms'', ''min_latency_ms'', ''packet_loss'']"

text \<open>\<open>df.empty\<close>: true when either axis has length 0.\<close>

definition df_empty :: "frame \<Rightarrow> bool" where
  "df_empty df = (columns df = [] \<or> rows df = [])"

section \<open>parse\_log\<close>

definition read_sql_query :: "store \<Rightarrow> error + (tz \<times> raw_row list)" where
  "read_sql_query st = (case st of Unreadable \<Rightarrow> Inl DatabaseError
                                 | Readable k raws \<Rightarrow> Inr (k, raws))"

text \<open>
  \<open>pd.to_datetime\<close> on a column: one text that is no date raises, and the whole
  conversion fails.
\<close>

fun to_datetime :: "raw_ts list \<Rightarrow> error + int option list" where
  "to_datetime [] = Inr []"
| "to_datetime (TsBad # ts) = Inl ValueError"
| "to_datetime (TsText t # ts) =
     (case to_datetime ts of Inl e \<Rightarrow> Inl e | Inr vs \<Rightarrow> Inr (Some t # vs))"
| "to_datetime (TsNull # ts) =
     (case to_datetime ts of Inl e \<Rightarrow> Inl e | Inr vs \<Rightarrow> Inr (None # vs))"


text \<open>A column without any point in time (empty, or all NaT) is timezone-naive.\<close>

definition column_tz :: "tz \<Rightarrow> int option list \<Rightarrow> tz" where
  "column_tz k vs = (if \<exists>v \<in> set vs. v \<noteq> None then k else Naive)"

text \<open>\<open>pd.to_numeric(..., errors='coerce')\<close> on one value.\<close>

fun to_numeric :: "raw_num \<Rightarrow> num" where
  "to_numeric (RNum x) = Some x"
| "to_numeric RNonNumeric = None"

text \<open>\<open>Series.clip(upper=u)\<close> on one value: NaN stays NaN.\<close>

fun clip_upper :: "real \<Rightarrow> num \<Rightarrow> num" where
  "clip_upper u None = None"
| "clip_upper u (Some x) = Some (if u < x then u else x)"

text \<open>The row that the statements of the \<open>try\<close> block make of one stored row.\<close>

definition normalize_row :: "int option \<Rightarrow> raw_row \<Rightarrow> probe" where
  "normalize_row t r =
     \<lparr> timestamp = t,
       status_message = db_status r,
       success = to_numeric (db_success_percentage r),
       avg_latency_ms = clip_upper 500 (to_numeric (db_avg_latency_ms r)),
       max_latency_ms = clip_upper 500 (to_numeric (db_max_latency_ms r)),
       min_latency_ms = clip_upper 500 (to_numeric (db_min_latency_ms r)),
       packet_loss = clip_upper 100 (to_numeric (db_packet_loss r)) \<rparr>"

text \<open>The \<open>try\<close> block of \<open>parse_log\<close>.\<close>

definition parse_log_try :: "store \<Rightarrow> error + frame" where
  "parse_log_try st =
     (case read_sql_query st of
        Inl e \<Rightarrow> Inl e
      | Inr (k, raws) \<Rightarrow>
          (case to_datetime (map db_timestamp raws) of
             Inl e \<Rightarrow> Inl e
           | Inr vs \<Rightarrow> Inr (Frame all_columns (column_tz k vs) (map2 normalize_row vs raws))))"

text \<open>\<open>parse_log\<close>: \<open>except Exception\<close> returns \<open>pd.DataFrame()\<close>.\<close>

definition parse_log :: "store \<Rightarrow> frame" where
  "parse_log st = (case parse_log_try st of Inl e \<Rightarrow> empty_DataFrame | Inr df \<Rightarrow> df)"

section \<open>filter\_data\_by\_date\<close>

definition hours :: "int \<Rightarrow> int" where
  "hours n = n * 3600"

definition days :: "int \<Rightarrow> int" where
  "days n = n * 86400"

text \<open>\<open>timestamp >= start_date\<close> on one cell: NaT compares false.\<close>

fun ge_ts :: "int option \<Rightarrow> int \<Rightarrow> bool" where
  "ge_ts None s = False"
| "ge_ts (Some t) s = (s \<le> t)"

text \<open>
  \<open>log_data[log_data['timestamp'] >= start_date]\<close>. Reading a column that the frame does
  not have raises KeyError; comparing a timezone-aware column with the timezone-naive
  \<open>start_date\<close> raises TypeError.
\<close>

definition rows_from :: "frame \<Rightarrow> int \<Rightarrow> error + frame" where
  "rows_from log_data start_date =
     (if ''timestamp'' \<notin> set (columns log_data) then Inl KeyError
      else if ts_tz log_data = Aware then Inl TypeError
      else Inr (Frame (columns log_data) (ts_tz log_data)
                  (filter (\<lambda>r. ge_ts (timestamp r) start_date) (rows log_data))))"

text \<open>The clock read by \<open>datetime.datetime.now()\<close> is the first argument.\<close>

definition filter_data_by_date :: "int \<Rightarrow> frame \<Rightarrow> string \<Rightarrow> error + frame" where
  "filter_data_by_date now log_data date_range =
     (if date_range = ''last_12_hours'' then rows_from log_data (now - hours 12)
      else if date_range = ''last_24_hours'' then rows_from log_data (now - hours 24)
      else if date_range = ''last_48_hours'' then rows_from log_data (now - hours 48)
      else if date_range = ''last_7_days'' then rows_from log_data (now - days 7)
      else Inr log_data)"

section \<open>get\_filtered\_data\<close>

text \<open>A cell of a record handed to the presentation layer.\<close>

datatype cell = CTime "int option" | CText string | CNum num

text \<open>A Python dict with string keys, in insertion order.\<close>

type_synonym pyrecord = "(string \<times> cell) list"

definition cell_of :: "string \<Rightarrow> probe \<Rightarrow> cell option" where
  "cell_of c r =
     (if c = ''timestamp'' then Some (CTime (timestamp r))
      else if c = ''status_message'' then Some (CText (status_message r))
      else if c = ''success'' then Some (CNum (success r))
      else if c = ''avg_latency_ms'' then Some (CNum (avg_latency_ms r))
      else if c = ''max_latency_ms'' then Some (CNum (max_latency_ms r))
      else if c = ''min_latency_ms'' then Some (CNum (min_latency_ms r))
      else if c = ''packet_loss'' then Some (CNum (packet_loss r))
      else None)"

fun to_dict :: "string list \<Rightarrow> probe \<Rightarrow> pyrecord" where
  "to_dict [] r = []"
| "to_dict (c # cs) r =
     (case cell_of c r of None \<Rightarrow> to_dict cs r | Some v \<Rightarrow> (c, v) # to_dict cs r)"

text \<open>\<open>df.to_dict('records')\<close>: one dict per row, keyed by the frame's columns.\<close>

definition to_dict_records :: "frame \<Rightarrow> pyrecord list" where
  "to_dict_records df = map (to_dict (columns df)) (rows df)"

text \<open>\<open>df[cols]\<close> with a list of names: KeyError when a name is no column.\<close>

definition getitem_columns :: "frame \<Rightarrow> string list \<Rightarrow> error + frame" where
  "getitem_columns df cols =
     (if list_all (\<lambda>c. c \<in> set (columns df)) cols
      then Inr (Frame cols (ts_tz df) (rows df)) else Inl KeyError)"

definition columns_to_cache :: "string list" where
  "columns_to_cache = [''timestamp'', ''success'', ''avg_latency_ms'', ''max_latency_ms'',
                       ''min_latency_ms'', ''packet_loss'']"

text \<open>
  The \<open>try\<close> block of \<open>get_filtered_data\<close>, on what \<open>db_path\<close> holds and the clock
  that \<open>filter_data_by_date\<close> reads.
\<close>

definition get_filtered_data_try :: "store \<Rightarrow> int \<Rightarrow> string \<Rightarrow> error + pyrecord list" where
  "get_filtered_data_try st now date_range =
     (let df = parse_log st in
      if df_empty df then Inr []
      else (case filter_data_by_date now df date_range of
              Inl e \<Rightarrow> Inl e
            | Inr filtered_df \<Rightarrow>
                if df_empty filtered_df then Inr []
                else (case getitem_columns filtered_df columns_to_cache of
                        Inl e \<Rightarrow> Inl e
                      | Inr reduced \<Rightarrow> Inr (to_dict_records reduced))))"

text \<open>The \<open>except\<close> block: read again, filter again, all columns.\<close>

definition get_filtered_data_except :: "store \<Rightarrow> int \<Rightarrow> string \<Rightarrow> error + pyrecord list" where
  "get_filtered_data_except st now date_range =
     (let df = parse_log st in
      case filter_data_by_date now df date_range of
        Inl e \<Rightarrow> Inl e
      | Inr filtered_df \<Rightarrow>
          Inr (if \<not> df_empty filtered_df then to_dict_records filtered_df else []))"

text \<open>
  The body of \<open>get_filtered_data\<close> (the function under the decorator): its outcome, and
  how many times it called \<open>parse_log\<close>.
\<close>

definition get_filtered_data_body ::
    "store \<Rightarrow> int \<Rightarrow> string \<Rightarrow> (error + pyrecord list) \<times> nat" where
  "get_filtered_data_body st now date_range =
     (case get_filtered_data_try st now date_range of
        Inr rv \<Rightarrow> (Inr rv, 1)
      | Inl e \<Rightarrow> (get_filtered_data_except st now date_range, 2))"

subsection \<open>The memoizing decorator\<close>

text \<open>
  What the program runs in: the content behind each database path, the clock, the
  cache and the number of calls of \<open>parse_log\<close> made so far. The cache holds the
  entries of the memoized function, each with the time at which it expires, and the
  version value of the function with its own expiry; \<open>versions_made\<close> counts the
  version values made so far.
\<close>

record world =
  storage :: "string \<Rightarrow> store"
  clock :: int
  version :: "(nat \<times> int) option"
  versions_made :: nat
  cache :: "string \<times> string \<times> nat \<Rightarrow> (pyrecord list \<times> int) option"
  parse_log_calls :: nat

definition memoize_timeout :: int where
  "memoize_timeout = 300"

text \<open>The version value that is live: written, and not yet expired.\<close>

definition version_live :: "world \<Rightarrow> nat option" where
  "version_live w =
     (case version w of
        None \<Rightarrow> None
      | Some (v, expires) \<Rightarrow> if clock w < expires then Some v else None)"

text \<open>
  The version value under which the decorator looks its entries up: the live one, or,
  when there is none, a new one (a random value in the library, here the next number)
  that is written with the timeout of the decorator.
\<close>

definition memoize_version :: "world \<Rightarrow> nat \<times> world" where
  "memoize_version w =
     (case version_live w of
        Some v \<Rightarrow> (v, w)
      | None \<Rightarrow>
          (versions_made w,
           w\<lparr>version := Some (versions_made w, clock w + memoize_timeout),
             versions_made := versions_made w + 1\<rparr>))"

text \<open>An entry is served while the clock is before its expiry; it is not removed.\<close>

definition cache_get :: "world \<Rightarrow> string \<times> string \<times> nat \<Rightarrow> pyrecord list option" where
  "cache_get w key =
     (case cache w key of
        None \<Rightarrow> None
      | Some (rv, expires) \<Rightarrow> if clock w < expires then Some rv else None)"

definition cache_set :: "world \<Rightarrow> string \<times> string \<times> nat \<Rightarrow> pyrecord list \<Rightarrow> world" where
  "cache_set w key rv = w\<lparr>cache := (cache w)(key \<mapsto> (rv, clock w + memoize_timeout))\<rparr>"

text \<open>
  \<open>get_filtered_data\<close> as decorated with \<open>@cache.memoize(timeout=300)\<close>. The decorator
  belongs to Flask-Caching; its behaviour with a working backend is as follows. The
  key of an entry is made of the two arguments and of the version value of the
  function, which is itself kept in the cache with the same timeout: once the version
  value has expired a new one is made, and no entry written under the old one is found
  again. A hit returns the stored value and does not call the function, a miss calls
  the function and stores what it returns, an exception of the function passes through
  and no entry is stored.
\<close>

definition get_filtered_data ::
    "world \<Rightarrow> string \<Rightarrow> string \<Rightarrow> (error + pyrecord list) \<times> world" where
  "get_filtered_data w db_path date_range =
     (case memoize_version w of
        (v, w') \<Rightarrow>
          (case cache_get w' (db_path, date_range, v) of
             Some rv \<Rightarrow> (Inr rv, w')
           | None \<Rightarrow>
               (case get_filtered_data_body (storage w' db_path) (clock w') date_range of
                  (Inl e, n) \<Rightarrow> (Inl e, w'\<lparr>parse_log_calls := parse_log_calls w' + n\<rparr>)
                | (Inr rv, n) \<Rightarrow>
                    (Inr rv, cache_set (w'\<lparr>parse_log_calls := parse_log_calls w' + n\<rparr>)
                               (db_path, date_range, v) rv))))"


definition fetch_data :: "world \<Rightarrow> int \<Rightarrow> string \<Rightarrow> (error + pyrecord list) \<times> world" where
  "fetch_data w n date_range = get_filtered_data w ''logs/internet_status.db'' date_range"






section \<open>calculate\_y\_range\<close>

text \<open>\<open>Series.max()\<close> and \<open>Series.min()\<close> skip NaN; they are NaN when nothing is left.\<close>

fun series_max :: "num list \<Rightarrow> num" where
  "series_max [] = None"
| "series_max (None # vs) = series_max vs"
| "series_max (Some v # vs) =
     (case series_max vs of None \<Rightarrow> Some v | Some m \<Rightarrow> Some (max v m))"

fun ts_max :: "int option list \<Rightarrow> int option" where
  "ts_max [] = None"
| "ts_max (None # ts) = ts_max ts"
| "ts_max (Some t # ts) = (case ts_max ts of None \<Rightarrow> Some t | Some m \<Rightarrow> Some (max t m))"

fun ts_min :: "int option list \<Rightarrow> int option" where
  "ts_min [] = None"
| "ts_min (None # ts) = ts_min ts"
| "ts_min (Some t # ts) = (case ts_min ts of None \<Rightarrow> Some t | Some m \<Rightarrow> Some (min t m))"

text \<open>
  The builtin \<open>min(a, b)\<close> with a number \<open>b\<close>: it answers \<open>b\<close> only when \<open>b < a\<close>,
  so a NaN in first place is returned.
\<close>

fun py_min :: "num \<Rightarrow> real \<Rightarrow> num" where
  "py_min None b = None"
| "py_min (Some a) b = Some (if b < a then b else a)"

definition num_times :: "num \<Rightarrow> real \<Rightarrow> num" where
  "num_times v k = map_option (\<lambda>a. a * k) v"

definition calculate_y_range :: "num list \<Rightarrow> real \<Rightarrow> real \<Rightarrow> real \<times> num" where
  "calculate_y_range data_series absolute_max buffer_ratio =
     (if data_series = [] then (0, Some absolute_max)
      else (let data_max = series_max data_series;
                dynamic_max = num_times data_max (1 + buffer_ratio);
                y_max = py_min dynamic_max absolute_max
            in (0, y_max)))"

section \<open>update\_dashboard\<close>

definition lookup_time :: "pyrecord \<Rightarrow> string \<Rightarrow> int option" where
  "lookup_time d c = (case map_of d c of Some (CTime t) \<Rightarrow> t | _ \<Rightarrow> None)"

definition lookup_text :: "pyrecord \<Rightarrow> string \<Rightarrow> string" where
  "lookup_text d c = (case map_of d c of Some (CText s) \<Rightarrow> s | _ \<Rightarrow> [])"

definition lookup_num :: "pyrecord \<Rightarrow> string \<Rightarrow> num" where
  "lookup_num d c = (case map_of d c of Some (CNum v) \<Rightarrow> v | _ \<Rightarrow> None)"

text \<open>The row of one dict; a key that the dict lacks is a missing value.\<close>

definition probe_of :: "pyrecord \<Rightarrow> probe" where
  "probe_of d =
     \<lparr> timestamp = lookup_time d ''timestamp'',
       status_message = lookup_text d ''status_message'',
       success = lookup_num d ''success'',
       avg_latency_ms = lookup_num d ''avg_latency_ms'',
       max_latency_ms = lookup_num d ''max_latency_ms'',
       min_latency_ms = lookup_num d ''min_latency_ms'',
       packet_loss = lookup_num d ''packet_loss'' \<rparr>"

fun first_seen :: "string list \<Rightarrow> string list" where
  "first_seen [] = []"
| "first_seen (k # ks) = k # filter (\<lambda>j. j \<noteq> k) (first_seen ks)"

text \<open>
  \<open>pd.DataFrame(filtered_data)\<close> on a list of dicts: the columns are the keys in the
  order in which they first occur, one row per dict.
\<close>

definition DataFrame :: "pyrecord list \<Rightarrow> frame" where
  "DataFrame data = Frame (first_seen (concat (map (map fst) data))) Naive (map probe_of data)"

text \<open>The float column of a name; the two other columns hold no numbers.\<close>

definition num_field :: "string \<Rightarrow> probe \<Rightarrow> num" where
  "num_field c r =
     (if c = ''success'' then success r
      else if c = ''avg_latency_ms'' then avg_latency_ms r
      else if c = ''max_latency_ms'' then max_latency_ms r
      else if c = ''min_latency_ms'' then min_latency_ms r
      else if c = ''packet_loss'' then packet_loss r
      else None)"

definition column :: "string \<Rightarrow> frame \<Rightarrow> num list" where
  "column c df = map (num_field c) (rows df)"

text \<open>
  \<open>sort_values\<close> by timestamp, NaT last in both directions. Rows with equal
  timestamps keep their order here.
\<close>

fun ts_before :: "bool \<Rightarrow> int option \<Rightarrow> int option \<Rightarrow> bool" where
  "ts_before ascending a None = True"
| "ts_before ascending None (Some b) = False"
| "ts_before ascending (Some a) (Some b) = (if ascending then a \<le> b else b \<le> a)"

fun insert_row :: "bool \<Rightarrow> probe \<Rightarrow> probe list \<Rightarrow> probe list" where
  "insert_row ascending r [] = [r]"
| "insert_row ascending r (q # qs) =
     (if ts_before ascending (timestamp r) (timestamp q) then r # q # qs
      else q # insert_row ascending r qs)"

definition sort_values :: "bool \<Rightarrow> frame \<Rightarrow> frame" where
  "sort_values ascending df =
     Frame (columns df) (ts_tz df) (foldr (insert_row ascending) (rows df) [])"

record trace =
  trace_x :: "int option list"
  trace_y :: "num list"
  trace_name :: string

text \<open>
  A figure, without its colours and fonts. The empty dict \<open>{}\<close> is \<open>None\<close>.
\<close>

record plot =
  plot_data :: "trace list"
  plot_title :: string
  yaxis_title :: string
  yaxis_range :: "real \<times> num"
  xaxis_range :: "int option \<times> int option"
  annotations :: "string list"

type_synonym figure = "plot option"

record dashboard =
  success_fig :: figure
  latency_fig :: figure
  packetloss_fig :: figure
  table_data :: "pyrecord list"
  full_up_count :: string
  partial_up_count :: string
  down_count :: string

definition ABSOLUTE_MAX_LATENCY :: real where
  "ABSOLUTE_MAX_LATENCY = 500"

definition ABSOLUTE_MAX_PACKET_LOSS :: real where
  "ABSOLUTE_MAX_PACKET_LOSS = 100"

text \<open>
  \<open>latency_data.max().max()\<close>: the maximum of each selected column, then the maximum
  of those.
\<close>

definition max_latency :: "frame \<Rightarrow> string list \<Rightarrow> num" where
  "max_latency df selected_latency_metrics =
     series_max (map (\<lambda>metric. series_max (column metric df)) selected_latency_metrics)"

definition latency_y_range :: "frame \<Rightarrow> string list \<Rightarrow> real \<times> num" where
  "latency_y_range df selected_latency_metrics =
     (if selected_latency_metrics \<noteq> []
      then (0, py_min (num_times (max_latency df selected_latency_metrics) 1.1) ABSOLUTE_MAX_LATENCY)
      else (0, Some ABSOLUTE_MAX_LATENCY))"

definition name_mapping :: "string \<Rightarrow> string" where
  "name_mapping metric =
     (if metric = ''avg_latency_ms'' then ''Avg Latency (ms)''
      else if metric = ''max_latency_ms'' then ''Max Latency (ms)''
      else if metric = ''min_latency_ms'' then ''Min Latency (ms)''
      else metric)"

definition timestamps :: "frame \<Rightarrow> int option list" where
  "timestamps df = map timestamp (rows df)"

definition latency_traces :: "frame \<Rightarrow> string list \<Rightarrow> trace list" where
  "latency_traces df selected_latency_metrics =
     map (\<lambda>metric. \<lparr> trace_x = timestamps df, trace_y = column metric df,
                      trace_name = name_mapping metric \<rparr>) selected_latency_metrics"

text \<open>
  The three conditions on a cell of the column \<open>success\<close>: \<open>== 100\<close>,
  \<open>(> 0) & (< 100)\<close> and \<open>== 0\<close>. Every comparison with NaN is false.
\<close>

fun fully_up :: "num \<Rightarrow> bool" where
  "fully_up None = False"
| "fully_up (Some s) = (s = 100)"

fun partially_up :: "num \<Rightarrow> bool" where
  "partially_up None = False"
| "partially_up (Some s) = (0 < s \<and> s < 100)"

fun down :: "num \<Rightarrow> bool" where
  "down None = False"
| "down (Some s) = (s = 0)"

text \<open>The three status counts: \<open>df[condition].shape[0]\<close>.\<close>

definition count_fully_up :: "frame \<Rightarrow> nat" where
  "count_fully_up df = length (filter fully_up (column ''success'' df))"

definition count_partially_up :: "frame \<Rightarrow> nat" where
  "count_partially_up df = length (filter partially_up (column ''success'' df))"

definition count_down :: "frame \<Rightarrow> nat" where
  "count_down df = length (filter down (column ''success'' df))"

text \<open>The decimal digits of a count, as an f-string prints it.\<close>

function str_nat :: "nat \<Rightarrow> string" where
  "str_nat n = (if n < 10 then [char_of (48 + n)]
                else str_nat (n div 10) @ [char_of (48 + n mod 10)])"
  by pat_completeness auto
termination
  by (relation "measure id") auto

definition update_dashboard :: "pyrecord list \<Rightarrow> string list \<Rightarrow> error + dashboard" where
  "update_dashboard filtered_data selected_latency_metrics =
     (let df0 = DataFrame filtered_data in
      if df_empty df0 then
        Inr \<lparr> success_fig = None, latency_fig = None, packetloss_fig = None,
              table_data = [],
              full_up_count = ''Fully Up: 0'',
              partial_up_count = ''Partially Up: 0'',
              down_count = ''Down: 0'' \<rparr>
      else if \<not> list_all (\<lambda>c. c \<in> set (columns df0))
                 (''timestamp'' # selected_latency_metrics @ [''success'', ''packet_loss''])
      then Inl KeyError
      else
        (let df = sort_values True df0;
             x_range = (ts_min (timestamps df), ts_max (timestamps df));
             packetloss_y_range =
               calculate_y_range (column ''packet_loss'' df) ABSOLUTE_MAX_PACKET_LOSS 0.1
         in Inr
           \<lparr> success_fig = Some
               \<lparr> plot_data = [\<lparr> trace_x = timestamps df, trace_y = column ''success'' df,
                                trace_name = ''Success Rate (%)'' \<rparr>],
                 plot_title = ''Internet Connectivity Over Time'',
                 yaxis_title = ''Ping Response Success Rate (%)'',
                 yaxis_range = (0, Some 100),
                 xaxis_range = x_range,
                 annotations = [] \<rparr>,
             latency_fig = Some
               (if selected_latency_metrics \<noteq> [] then
                  \<lparr> plot_data = latency_traces df selected_latency_metrics,
                    plot_title = ''Latency Over Time'',
                    yaxis_title = ''Latency (ms)'',
                    yaxis_range = latency_y_range df selected_latency_metrics,
                    xaxis_range = x_range,
                    annotations = [] \<rparr>
                else
                  \<lparr> plot_data = [],
                    plot_title = ''Latency Over Time'',
                    yaxis_title = ''Latency (ms)'',
                    yaxis_range = (0, Some ABSOLUTE_MAX_LATENCY),
                    xaxis_range = x_range,
                    annotations = [''Please select at least one latency metric to display.''] \<rparr>),
             packetloss_fig = Some
               \<lparr> plot_data = [\<lparr> trace_x = timestamps df, trace_y = column ''packet_loss'' df,
                                trace_name = ''Packet Loss (%)'' \<rparr>],
                 plot_title = ''Packet Loss Over Time'',
                 yaxis_title = ''Packet Loss (%)'',
                 yaxis_range = (0, snd packetloss_y_range),
                 xaxis_range = x_range,
                 annotations = [] \<rparr>,
             table_data = to_dict_records (sort_values False df),
             full_up_count = ''Fully Up: '' @ str_nat (count_fully_up df),
             partial_up_count = ''Partially Up: '' @ str_nat (count_partially_up df),
             down_count = ''Down: '' @ str_nat (count_down df) \<rparr>))"

section \<open>trigger\_power\_cycle\<close>

text \<open>
  What \<open>subprocess.run(..., check=True)\<close> meets: the script runs and exits with a
  return code, its output captured, or the interpreter cannot be started.
\<close>

datatype completed = Exited int string string | NotStarted

text \<open>
  The host: what running the script gives, the text of \<open>datetime.datetime.now()\<close>, and
  the number of times the subprocess has been run.
\<close>

record host =
  script :: completed
  now_text :: string
  subprocess_runs :: nat

definition trigger_power_cycle :: "host \<Rightarrow> int \<Rightarrow> (error + string) \<times> host" where
  "trigger_power_cycle h n_clicks =
     (if 0 < n_clicks then
        (let h' = h\<lparr>subprocess_runs := subprocess_runs h + 1\<rparr> in
         case script h of
           NotStarted \<Rightarrow> (Inl OSError, h')
         | Exited returncode out err \<Rightarrow>
             if returncode = 0 then (Inr (''Power cycle triggered at '' @ now_text h), h')
             else (Inr (''Power cycle failed: '' @ err), h'))
      else (Inr [], h))"

section \<open>Sample data\<close>

text \<open>A stored row with a parsable timestamp, success \<open>s\<close> and average latency \<open>avg\<close>.\<close>

definition probe_row :: "int \<Rightarrow> real \<Rightarrow> real \<Rightarrow> raw_row" where
  "probe_row t s avg =
     \<lparr> db_timestamp = TsText t, db_status = ''probe'',
       db_success_percentage = RNum s, db_avg_latency_ms = RNum avg,
       db_max_latency_ms = RNonNumeric, db_min_latency_ms = RNonNumeric,
       db_packet_loss = RNum 0 \<rparr>"

text \<open>Three probes at 09:00, 10:00 and 11:00 with success 100, 50 and 0.\<close>

definition three_store :: store where
  "three_store =
     Readable Naive [probe_row 32400 100 20, probe_row 36000 50 20, probe_row 39600 0 20]"

definition three_records :: "pyrecord list" where
  "three_records = map (to_dict columns_to_cache)
     [normalize_row (Some 32400) (probe_row 32400 100 20),
      normalize_row (Some 36000) (probe_row 36000 50 20),
      normalize_row (Some 39600) (probe_row 39600 0 20)]"

text \<open>One probe whose stored success percentage is 150.\<close>

definition overrange_store :: store where
  "overrange_store = Readable Naive [probe_row 32400 150 20]"

definition overrange_records :: "pyrecord list" where
  "overrange_records =
     map (to_dict columns_to_cache) [normalize_row (Some 32400) (probe_row 32400 150 20)]"

text \<open>One probe whose stored average latency is 600.\<close>

definition slow_store :: store where
  "slow_store = Readable Naive [probe_row 32400 100 600]"

definition slow_records :: "pyrecord list" where
  "slow_records =
     map (to_dict columns_to_cache) [normalize_row (Some 32400) (probe_row 32400 100 600)]"


text \<open>A stored row with values on both sides of every bound.\<close>

definition sample_raw :: raw_row where
  "sample_raw =
     \<lparr> db_timestamp = TsText 1000, db_status = ''Internet is up'',
       db_success_percentage = RNum 100, db_avg_latency_ms = RNum 600,
       db_max_latency_ms = RNum 20, db_min_latency_ms = RNum (- 5),
       db_packet_loss = RNum 150 \<rparr>"


text \<open>The same row stored with a UTC offset in its timestamp.\<close>

definition aware_world :: world where
  "aware_world =
     \<lparr> storage = (\<lambda>p. Readable Aware [sample_raw]), clock = 50000,
       version = None, versions_made = 0,
       cache = (\<lambda>key. None), parse_log_calls = 0 \<rparr>"

text \<open>The three count texts of a dashboard, or nothing when the update raised.\<close>

definition rendered_counts :: "error + dashboard \<Rightarrow> string list" where
  "rendered_counts res =
     (case res of Inl e \<Rightarrow> []
               | Inr d \<Rightarrow> [full_up_count d, partial_up_count d, down_count d])"

text \<open>The larger of two cells, a missing one giving way to the other.\<close>

fun join_max :: "num \<Rightarrow> num \<Rightarrow> num" where
  "join_max None b = b"
| "join_max (Some a) None = Some a"
| "join_max (Some a) (Some b) = Some (max a b)"

section \<open>Facts about the reader\<close>

declare str_nat.simps [simp del]

lemma to_datetime_length: "to_datetime ts = Inr vs \<Longrightarrow> length vs = length ts"
proof (induction ts arbitrary: vs rule: to_datetime.induct)
  case 1
  then show ?case by simp
next
  case (2 ts)
  then show ?case by simp
next
  case (3 t ts)
  then show ?case by (auto split: sum.splits)
next
  case (4 ts)
  then show ?case by (auto split: sum.splits)
qed

lemma to_datetime_ok: "TsBad \<notin> set ts \<Longrightarrow> \<exists>vs. to_datetime ts = Inr vs"
  by (induction ts rule: to_datetime.induct) auto

lemma parse_log_readable:
  assumes "TsBad \<notin> db_timestamp ` set raws"
  shows "\<exists>vs. to_datetime (map db_timestamp raws) = Inr vs \<and> length vs = length raws \<and>
           parse_log (Readable k raws) =
             Frame all_columns (column_tz k vs) (map2 normalize_row vs raws)"
proof -
  from assms have "TsBad \<notin> set (map db_timestamp raws)" by simp
  then obtain vs where vs: "to_datetime (map db_timestamp raws) = Inr vs"
    using to_datetime_ok by blast
  then have "length vs = length raws" using to_datetime_length by fastforce
  with vs show ?thesis
    by (simp add: parse_log_def parse_log_try_def read_sql_query_def)
qed

lemma parse_log_cases:
  "parse_log st = empty_DataFrame \<or>
   (\<exists>k raws vs. st = Readable k raws \<and> to_datetime (map db_timestamp raws) = Inr vs \<and>
      length vs = length raws \<and>
      parse_log st = Frame all_columns (column_tz k vs) (map2 normalize_row vs raws))"
proof (cases st)
  case Unreadable
  then show ?thesis by (simp add: parse_log_def parse_log_try_def read_sql_query_def)
next
  case (Readable k raws)
  show ?thesis
  proof (cases "to_datetime (map db_timestamp raws)")
    case (Inl e)
    with Readable show ?thesis
      by (simp add: parse_log_def parse_log_try_def read_sql_query_def)
  next
    case (Inr vs)
    then have "length vs = length raws" using to_datetime_length by fastforce
    with Readable Inr show ?thesis
      by (simp add: parse_log_def parse_log_try_def read_sql_query_def)
  qed
qed

lemma parse_log_columns: "\<not> df_empty (parse_log st) \<Longrightarrow> columns (parse_log st) = all_columns"
  using parse_log_cases [of st] by (auto simp: df_empty_def empty_DataFrame_def)

lemma filter_columns: "filter_data_by_date now df dr = Inr out \<Longrightarrow> columns out = columns df"
  by (auto simp: filter_data_by_date_def rows_from_def split: if_splits)

lemma three_parse:
  "parse_log three_store = Frame all_columns Naive
     [normalize_row (Some 32400) (probe_row 32400 100 20),
      normalize_row (Some 36000) (probe_row 36000 50 20),
      normalize_row (Some 39600) (probe_row 39600 0 20)]"
  by (simp add: three_store_def parse_log_def parse_log_try_def read_sql_query_def
      probe_row_def column_tz_def)

lemma sample_parse:
  "parse_log (Readable k [sample_raw]) = Frame all_columns k [normalize_row (Some 1000) sample_raw]"
  by (simp add: parse_log_def parse_log_try_def read_sql_query_def sample_raw_def column_tz_def)

section \<open>Facts about the fetch operation\<close>

lemma three_try: "get_filtered_data_try three_store now ''all_time'' = Inr three_records"
  by (simp add: get_filtered_data_try_def three_parse df_empty_def all_columns_def
      three_records_def filter_data_by_date_def getitem_columns_def columns_to_cache_def
      to_dict_records_def)

lemma overrange_try:
  "get_filtered_data_try overrange_store now ''all_time'' = Inr overrange_records"
  by (simp add: get_filtered_data_try_def overrange_store_def parse_log_def parse_log_try_def
      read_sql_query_def probe_row_def column_tz_def df_empty_def all_columns_def
      overrange_records_def filter_data_by_date_def getitem_columns_def columns_to_cache_def
      to_dict_records_def)

lemma slow_try: "get_filtered_data_try slow_store now ''all_time'' = Inr slow_records"
  by (simp add: get_filtered_data_try_def slow_store_def parse_log_def parse_log_try_def
      read_sql_query_def probe_row_def column_tz_def df_empty_def all_columns_def
      slow_records_def filter_data_by_date_def getitem_columns_def columns_to_cache_def
      to_dict_records_def)


lemma aware_try:
  "get_filtered_data_try (Readable Aware [sample_raw]) now ''last_12_hours'' = Inl TypeError"
  by (simp add: get_filtered_data_try_def sample_parse df_empty_def all_columns_def
      filter_data_by_date_def rows_from_def)

lemma try_error_again:
  assumes "get_filtered_data_try st now dr = Inl e"
  shows "get_filtered_data_except st now dr = Inl e"
proof -
  from assms have ne: "\<not> df_empty (parse_log st)"
    by (auto simp: get_filtered_data_try_def Let_def split: if_splits)
  show ?thesis
  proof (cases "filter_data_by_date now (parse_log st) dr")
    case (Inl e')
    with assms ne show ?thesis
      by (simp add: get_filtered_data_try_def get_filtered_data_except_def Let_def)
  next
    case (Inr out)
    then have "columns out = all_columns"
      using filter_columns parse_log_columns [OF ne] by simp
    then have "getitem_columns out columns_to_cache =
        Inr (Frame columns_to_cache (ts_tz out) (rows out))"
      by (simp add: getitem_columns_def all_columns_def columns_to_cache_def)
    with assms ne Inr show ?thesis
      by (simp add: get_filtered_data_try_def Let_def split: if_splits)
  qed
qed

subsection \<open>The reader, row by row\<close>






subsection \<open>The cache\<close>























section \<open>Facts about the dashboard\<close>

lemma series_max_Cons: "series_max (v # vs) = join_max v (series_max vs)"
  by (cases v; cases "series_max vs") auto

lemma join_max_assoc: "join_max (join_max a b) c = join_max a (join_max b c)"
  by (cases a; cases b; cases c) (auto simp: max.assoc)

lemma series_max_append: "series_max (xs @ ys) = join_max (series_max xs) (series_max ys)"
proof (induction xs)
  case Nil
  then show ?case by simp
next
  case (Cons x xs)
  then show ?case by (simp only: append_Cons series_max_Cons join_max_assoc)
qed

lemma series_max_nested:
  "series_max (map (\<lambda>m. series_max (f m)) ms) = series_max (concat (map f ms))"
proof (induction ms)
  case Nil
  then show ?case by simp
next
  case (Cons m ms)
  then show ?case by (simp add: series_max_Cons series_max_append del: series_max.simps)
qed

lemma series_max_these:
  "series_max vs =
     (if Option.these (set vs) = {} then None else Some (Max (Option.these (set vs))))"
proof (induction vs)
  case Nil
  then show ?case by simp
next
  case (Cons v vs)
  show ?case
  proof (cases v)
    case None
    with Cons show ?thesis by (simp add: Option.these_insert_None)
  next
    case (Some a)
    have fin: "finite (Option.these (set vs))" by (simp add: Option.these_def)
    from Some Cons fin show ?thesis
      by (auto simp: Option.these_insert_Some)
  qed
qed

lemma set_insert_row: "set (insert_row asc r qs) = insert r (set qs)"
  by (induction qs) auto

lemma set_sorted_rows: "set (foldr (insert_row asc) rs []) = set rs"
  by (induction rs) (auto simp: set_insert_row)

lemma rows_sort_values: "set (rows (sort_values asc df)) = set (rows df)"
  by (simp add: sort_values_def set_sorted_rows)

lemma filter_insert_row:
  "length (filter Q (insert_row asc r qs)) = length (filter Q (r # qs))"
  by (induction qs) auto

lemma filter_sorted_rows:
  "length (filter Q (foldr (insert_row asc) rs [])) = length (filter Q rs)"
  by (induction rs) (auto simp: filter_insert_row)

lemma counts_sort_values:
  "count_fully_up (sort_values asc df) = count_fully_up df"
  "count_partially_up (sort_values asc df) = count_partially_up df"
  "count_down (sort_values asc df) = count_down df"
  by (simp_all add: count_fully_up_def count_partially_up_def count_down_def column_def
      sort_values_def filter_sorted_rows)

section \<open>The claims\<close>




text \<open>
  C2. With the clock fixed at \<open>T\<close>, the selector \<open>last_12_hours\<close> keeps exactly the
  rows whose timestamp is at least \<open>T\<close> minus 12 hours, in their order: every row of
  the output has such a timestamp, and every such row of the input is in the output.
  The frame has a timestamp column of timezone-naive points in time.
\<close>

theorem filter_last_12_hours_exact:
  assumes "''timestamp'' \<in> set (columns df)" and "ts_tz df = Naive"
  shows "\<exists>out. filter_data_by_date T df ''last_12_hours'' = Inr out \<and>
           columns out = columns df \<and>
           rows out = filter (\<lambda>r. \<exists>t. timestamp r = Some t \<and> T - 12 * 3600 \<le> t) (rows df) \<and>
           (\<forall>r \<in> set (rows out). \<exists>t. timestamp r = Some t \<and> T - 12 * 3600 \<le> t) \<and>
           (\<forall>r \<in> set (rows df).
              (\<exists>t. timestamp r = Some t \<and> T - 12 * 3600 \<le> t) \<longrightarrow> r \<in> set (rows out))"
proof -
  have eq: "(\<lambda>r::probe. ge_ts (timestamp r) (T - hours 12)) =
            (\<lambda>r. \<exists>t. timestamp r = Some t \<and> T - 12 * 3600 \<le> t)"
  proof
    fix r :: probe
    show "ge_ts (timestamp r) (T - hours 12) = (\<exists>t. timestamp r = Some t \<and> T - 12 * 3600 \<le> t)"
      by (cases "timestamp r") (simp_all add: hours_def)
  qed
  show ?thesis
    using assms by (simp add: filter_data_by_date_def rows_from_def eq)
qed

text \<open>
  The three sample probes at 09:00, 10:00 and 11:00 with the clock at 22:00: the probe
  of 10:00 lies exactly 12 hours back and is kept, the one of 09:00 is dropped.
\<close>

theorem filter_last_12_hours_exact_witness:
  "filter_data_by_date 79200 (parse_log three_store) ''last_12_hours'' =
     Inr (Frame all_columns Naive
       [normalize_row (Some 36000) (probe_row 36000 50 20),
        normalize_row (Some 39600) (probe_row 39600 0 20)])"
proof -
  have c: "''timestamp'' \<in> set (columns (parse_log three_store))"
    by (simp add: three_parse all_columns_def)
  have n: "ts_tz (parse_log three_store) = Naive"
    by (simp add: three_parse)
  from filter_last_12_hours_exact [OF c n, of 79200] obtain out where
    o: "filter_data_by_date 79200 (parse_log three_store) ''last_12_hours'' = Inr out"
    and cs: "columns out = columns (parse_log three_store)"
    and rs: "rows out = filter (\<lambda>r. \<exists>t. timestamp r = Some t \<and> 79200 - 12 * 3600 \<le> t)
                 (rows (parse_log three_store))"
    by blast
  have tz: "ts_tz out = Naive"
    using o by (auto simp: filter_data_by_date_def rows_from_def three_parse split: if_splits)
  have "out = Frame all_columns Naive
       [normalize_row (Some 36000) (probe_row 36000 50 20),
        normalize_row (Some 39600) (probe_row 39600 0 20)]"
    using cs rs tz by (cases out) (simp add: three_parse normalize_row_def)
  with o show ?thesis by simp
qed

text \<open>
  C3. The selector \<open>all_time\<close>, and every selector that is none of the four bounded
  ones, returns the frame it was given, so the number of rows is unchanged.
\<close>

theorem filter_unrecognized_identity:
  "filter_data_by_date now df ''all_time'' = Inr df \<and>
   (date_range \<notin> {''last_12_hours'', ''last_24_hours'', ''last_48_hours'', ''last_7_days''} \<longrightarrow>
      filter_data_by_date now df date_range = Inr df)"
  by (simp add: filter_data_by_date_def)

theorem filter_unrecognized_identity_witness:
  "filter_data_by_date 79200 (parse_log three_store) ''all_time'' = Inr (parse_log three_store) \<and>
   filter_data_by_date 79200 (parse_log three_store) ''last_month'' = Inr (parse_log three_store) \<and>
   length (rows (parse_log three_store)) = 3"
  using filter_unrecognized_identity [of 79200 "parse_log three_store" "''last_month''"]
  by (simp add: three_parse)

text \<open>
  C4. Where the table can be read, \<open>parse_log\<close> keeps every row in its place, and a
  numeric stored value \<open>x\<close> of \<open>avg_latency_ms\<close>, \<open>max_latency_ms\<close> or
  \<open>min_latency_ms\<close> becomes 500 when it exceeds 500 and stays \<open>x\<close> otherwise (a negative
  value included); a numeric \<open>packet_loss\<close> above 100 becomes 100 and stays otherwise.
\<close>

theorem parse_log_clamps:
  assumes ok: "TsBad \<notin> db_timestamp ` set raws" and i: "i < length raws"
  shows "length (rows (parse_log (Readable k raws))) = length raws \<and>
    (db_avg_latency_ms (raws ! i) = RNum x \<longrightarrow>
       avg_latency_ms (rows (parse_log (Readable k raws)) ! i) = Some (if 500 < x then 500 else x)) \<and>
    (db_max_latency_ms (raws ! i) = RNum x \<longrightarrow>
       max_latency_ms (rows (parse_log (Readable k raws)) ! i) = Some (if 500 < x then 500 else x)) \<and>
    (db_min_latency_ms (raws ! i) = RNum x \<longrightarrow>
       min_latency_ms (rows (parse_log (Readable k raws)) ! i) = Some (if 500 < x then 500 else x)) \<and>
    (db_packet_loss (raws ! i) = RNum x \<longrightarrow>
       packet_loss (rows (parse_log (Readable k raws)) ! i) = Some (if 100 < x then 100 else x))"
proof -
  obtain vs where len: "length vs = length raws"
    and pl: "parse_log (Readable k raws) =
               Frame all_columns (column_tz k vs) (map2 normalize_row vs raws)"
    using parse_log_readable [OF ok] by blast
  have nth: "rows (parse_log (Readable k raws)) ! i = normalize_row (vs ! i) (raws ! i)"
    using pl len i by simp
  show ?thesis
    unfolding nth using pl len by (simp add: normalize_row_def)
qed

text \<open>
  The sample row stores an average of 600, a maximum of 20, a minimum of -5 and a packet
  loss of 150: they are read as 500, 20, -5 and 100.
\<close>

theorem parse_log_clamps_witness:
  "avg_latency_ms (rows (parse_log (Readable Naive [sample_raw])) ! 0) = Some 500 \<and>
   max_latency_ms (rows (parse_log (Readable Naive [sample_raw])) ! 0) = Some 20 \<and>
   min_latency_ms (rows (parse_log (Readable Naive [sample_raw])) ! 0) = Some (- 5) \<and>
   packet_loss (rows (parse_log (Readable Naive [sample_raw])) ! 0) = Some 100"
proof -
  have ok: "TsBad \<notin> db_timestamp ` set [sample_raw]" by (simp add: sample_raw_def)
  have i: "(0::nat) < length [sample_raw]" by simp
  from parse_log_clamps [OF ok i, of Naive 600] parse_log_clamps [OF ok i, of Naive 20]
    parse_log_clamps [OF ok i, of Naive "- 5"] parse_log_clamps [OF ok i, of Naive 150]
  show ?thesis by (simp add: sample_raw_def)
qed




text \<open>
  C9. What the code does when the \<open>try\<close> block of \<open>get_filtered_data\<close> raises: the
  \<open>except\<close> block reads and filters once more, raises the same error, and the error
  reaches the caller after two calls of \<open>parse_log\<close>.
\<close>

theorem cached_path_error_reaches_caller:
  assumes "get_filtered_data_try st now date_range = Inl e"
  shows "get_filtered_data_body st now date_range = (Inl e, 2)"
  using assms try_error_again [OF assms] by (simp add: get_filtered_data_body_def)

text \<open>
  A table whose timestamps carry a UTC offset, read with the selector \<open>last_12_hours\<close>:
  the comparison with the timezone-naive cutoff raises TypeError in the \<open>try\<close> block and
  again in the \<open>except\<close> block, and the request ends with that error.
\<close>

theorem cached_path_error_reaches_caller_witness:
  "get_filtered_data_try (Readable Aware [sample_raw]) 50000 ''last_12_hours'' = Inl TypeError \<and>
   get_filtered_data_body (Readable Aware [sample_raw]) 50000 ''last_12_hours'' = (Inl TypeError, 2) \<and>
   get_filtered_data aware_world ''logs/internet_status.db'' ''last_12_hours'' =
     (Inl TypeError,
      aware_world\<lparr>version := Some (0, 50300), versions_made := 1, parse_log_calls := 2\<rparr>)"
  using cached_path_error_reaches_caller [OF aware_try, of 50000] aware_try [of 50000]
  by (simp add: get_filtered_data_def memoize_version_def version_live_def cache_get_def
      aware_world_def memoize_timeout_def)

text \<open>
  C10. With a click count of zero, and with any count that is not positive,
  \<open>trigger_power_cycle\<close> returns the empty text and runs no subprocess; with a positive
  count it runs the subprocess once.
\<close>

theorem power_cycle_needs_click:
  "trigger_power_cycle h 0 = (Inr [], h) \<and>
   (n_clicks \<le> 0 \<longrightarrow> trigger_power_cycle h n_clicks = (Inr [], h)) \<and>
   (0 < n_clicks \<longrightarrow>
      subprocess_runs (snd (trigger_power_cycle h n_clicks)) = subprocess_runs h + 1)"
  by (auto simp: trigger_power_cycle_def Let_def split: completed.splits)

theorem power_cycle_needs_click_witness:
  "trigger_power_cycle \<lparr>script = Exited 0 [] [], now_text = ''2024-05-01 09:00:00.000000'',
      subprocess_runs = 0\<rparr> 0 =
     (Inr [], \<lparr>script = Exited 0 [] [], now_text = ''2024-05-01 09:00:00.000000'',
      subprocess_runs = 0\<rparr>) \<and>
   subprocess_runs (snd (trigger_power_cycle \<lparr>script = Exited 0 [] [],
      now_text = ''2024-05-01 09:00:00.000000'', subprocess_runs = 0\<rparr> 1)) = 1"
  using power_cycle_needs_click [of "\<lparr>script = Exited 0 [] [],
      now_text = ''2024-05-01 09:00:00.000000'', subprocess_runs = 0\<rparr>" 1]
  by simp

section \<open>The dashboard claims\<close>

lemma counts_le:
  "length (filter fully_up vs) + length (filter partially_up vs) + length (filter down vs)
     \<le> length vs"
proof (induction vs)
  case Nil
  then show ?case by simp
next
  case (Cons v vs)
  then show ?case by (cases v) auto
qed

lemma counts_eq:
  "\<forall>v \<in> set vs. \<exists>s. v = Some s \<and> 0 \<le> s \<and> s \<le> 100 \<Longrightarrow>
   length (filter fully_up vs) + length (filter partially_up vs) + length (filter down vs)
     = length vs"
proof (induction vs)
  case Nil
  then show ?case by simp
next
  case (Cons v vs)
  then show ?case by (cases v) auto
qed

lemma dashboard_counts:
  assumes "update_dashboard data sel = Inr d" and "\<not> df_empty (DataFrame data)"
  shows "rendered_counts (update_dashboard data sel) =
     [''Fully Up: '' @ str_nat (count_fully_up (DataFrame data)),
      ''Partially Up: '' @ str_nat (count_partially_up (DataFrame data)),
      ''Down: '' @ str_nat (count_down (DataFrame data))]"
  using assms
  by (auto simp: rendered_counts_def update_dashboard_def Let_def counts_sort_values
      split: if_splits)

lemma dashboard_returns:
  assumes "\<not> df_empty (DataFrame data)"
    and "{''timestamp'', ''success'', ''packet_loss''} \<union> set sel \<subseteq> set (columns (DataFrame data))"
  shows "\<exists>d. update_dashboard data sel = Inr d"
  using assms by (auto simp: update_dashboard_def Let_def list_all_iff)

lemma probe_of_reduced:
  "probe_of (to_dict columns_to_cache r) = r\<lparr>status_message := []\<rparr>"
  by (simp add: probe_of_def columns_to_cache_def cell_of_def lookup_time_def lookup_text_def
      lookup_num_def)

lemma keys_reduced: "map fst (to_dict columns_to_cache r) = columns_to_cache"
  by (simp add: columns_to_cache_def cell_of_def)

lemma rows_DataFrame: "rows (DataFrame data) = map probe_of data"
  by (simp add: DataFrame_def)

lemma first_seen_set: "set (first_seen ks) = set ks"
  by (induction ks) auto

lemma columns_DataFrame: "set (columns (DataFrame data)) = (\<Union>d \<in> set data. fst ` set d)"
  by (simp add: DataFrame_def first_seen_set)

lemma reduced_columns:
  assumes "rs \<noteq> []"
  shows "set (columns (DataFrame (map (to_dict columns_to_cache) rs))) = set columns_to_cache"
proof -
  have "\<And>r. fst ` set (to_dict columns_to_cache r) = set columns_to_cache"
    using keys_reduced by (metis list.set_map)
  then have "(\<Union>d \<in> set (map (to_dict columns_to_cache) rs). fst ` set d) =
             (\<Union>r \<in> set rs. set columns_to_cache)"
    by simp
  also have "\<dots> = set columns_to_cache" using assms by auto
  finally show ?thesis by (simp only: columns_DataFrame)
qed

lemma reduced_not_empty:
  assumes "rs \<noteq> []"
  shows "\<not> df_empty (DataFrame (map (to_dict columns_to_cache) rs))"
proof -
  have "set (columns (DataFrame (map (to_dict columns_to_cache) rs))) \<noteq> {}"
    using reduced_columns [OF assms] by (simp add: columns_to_cache_def)
  then have "columns (DataFrame (map (to_dict columns_to_cache) rs)) \<noteq> []" by auto
  moreover have "rows (DataFrame (map (to_dict columns_to_cache) rs)) \<noteq> []"
    using assms by (simp add: rows_DataFrame)
  ultimately show ?thesis by (simp add: df_empty_def)
qed

lemma reduced_dashboard_returns:
  assumes "rs \<noteq> []"
    and "set sel \<subseteq> {''avg_latency_ms'', ''max_latency_ms'', ''min_latency_ms''}"
  shows "\<exists>d. update_dashboard (map (to_dict columns_to_cache) rs) sel = Inr d"
proof -
  have "{''timestamp'', ''success'', ''packet_loss''} \<union> set sel
          \<subseteq> set (columns (DataFrame (map (to_dict columns_to_cache) rs)))"
  proof -
    have fixed: "{''timestamp'', ''success'', ''packet_loss''} \<subseteq> set columns_to_cache"
      by (simp add: columns_to_cache_def)
    have three: "{''avg_latency_ms'', ''max_latency_ms'', ''min_latency_ms''}
                   \<subseteq> set columns_to_cache"
      by (simp add: columns_to_cache_def)
    from assms(2) three have "set sel \<subseteq> set columns_to_cache" by (rule subset_trans)
    with fixed show ?thesis
      unfolding reduced_columns [OF assms(1)] by (rule Un_least)
  qed
  from dashboard_returns [OF reduced_not_empty [OF assms(1)] this] show ?thesis .
qed

lemma reduced_success:
  "column ''success'' (DataFrame (map (to_dict columns_to_cache) rs)) = map success rs"
  by (simp add: column_def rows_DataFrame probe_of_reduced num_field_def comp_def)

lemma str_nat_digits: "str_nat 0 = ''0''" "str_nat (Suc 0) = ''1''"
  by code_simp+

lemma reduced_rendered_counts:
  assumes "rs \<noteq> []"
  shows "rendered_counts (update_dashboard (map (to_dict columns_to_cache) rs) []) =
     [''Fully Up: '' @ str_nat (length (filter fully_up (map success rs))),
      ''Partially Up: '' @ str_nat (length (filter partially_up (map success rs))),
      ''Down: '' @ str_nat (length (filter down (map success rs)))]"
proof -
  have sel: "set [] \<subseteq> {''avg_latency_ms'', ''max_latency_ms'', ''min_latency_ms''}" by simp
  from reduced_dashboard_returns [OF assms sel] obtain d where
    d: "update_dashboard (map (to_dict columns_to_cache) rs) [] = Inr d" by blast
  from dashboard_counts [OF d reduced_not_empty [OF assms]] show ?thesis
    unfolding count_fully_up_def count_partially_up_def count_down_def reduced_success .
qed

lemma three_dashboard:
  "rendered_counts (update_dashboard three_records []) =
     [''Fully Up: 1'', ''Partially Up: 1'', ''Down: 1'']"
proof -
  have ne: "[normalize_row (Some 32400) (probe_row 32400 100 20),
             normalize_row (Some 36000) (probe_row 36000 50 20),
             normalize_row (Some 39600) (probe_row 39600 0 20)] \<noteq> []" by simp
  show ?thesis
    unfolding three_records_def reduced_rendered_counts [OF ne]
    by (simp add: normalize_row_def probe_row_def str_nat_digits)
qed

lemma overrange_dashboard:
  "rendered_counts (update_dashboard overrange_records []) =
     [''Fully Up: 0'', ''Partially Up: 0'', ''Down: 0'']"
proof -
  have ne: "[normalize_row (Some 32400) (probe_row 32400 150 20)] \<noteq> []" by simp
  show ?thesis
    unfolding overrange_records_def reduced_rendered_counts [OF ne]
    by (simp add: normalize_row_def probe_row_def str_nat_digits)
qed


text \<open>
  C5, as amended. For every frame the three status counts add up to at most the number
  of rows, and to exactly that number whenever every row has a success value that is
  present and lies between 0 and 100; no value meets two of the three conditions; the
  dashboard prints these counts; and the three sample records with success 100, 50 and
  0 give one record in each count.
\<close>

theorem status_counts_partition:
  "count_fully_up df + count_partially_up df + count_down df \<le> length (rows df) \<and>
   ((\<forall>r \<in> set (rows df). \<exists>s. success r = Some s \<and> 0 \<le> s \<and> s \<le> 100) \<longrightarrow>
      count_fully_up df + count_partially_up df + count_down df = length (rows df)) \<and>
   \<not> (fully_up v \<and> partially_up v) \<and> \<not> (fully_up v \<and> down v) \<and>
   \<not> (partially_up v \<and> down v) \<and>
   (update_dashboard data sel = Inr d \<and> \<not> df_empty (DataFrame data) \<longrightarrow>
      rendered_counts (update_dashboard data sel) =
        [''Fully Up: '' @ str_nat (count_fully_up (DataFrame data)),
         ''Partially Up: '' @ str_nat (count_partially_up (DataFrame data)),
         ''Down: '' @ str_nat (count_down (DataFrame data))]) \<and>
   get_filtered_data_try three_store now ''all_time'' = Inr three_records \<and>
   rendered_counts (update_dashboard three_records []) =
     [''Fully Up: 1'', ''Partially Up: 1'', ''Down: 1'']"
proof -
  have len: "length (column ''success'' df) = length (rows df)" by (simp add: column_def)
  have le: "count_fully_up df + count_partially_up df + count_down df \<le> length (rows df)"
    using counts_le [of "column ''success'' df"]
    by (simp add: count_fully_up_def count_partially_up_def count_down_def len)
  have eq: "(\<forall>r \<in> set (rows df). \<exists>s. success r = Some s \<and> 0 \<le> s \<and> s \<le> 100) \<longrightarrow>
      count_fully_up df + count_partially_up df + count_down df = length (rows df)"
  proof
    assume "\<forall>r \<in> set (rows df). \<exists>s. success r = Some s \<and> 0 \<le> s \<and> s \<le> 100"
    then have "\<forall>v \<in> set (column ''success'' df). \<exists>s. v = Some s \<and> 0 \<le> s \<and> s \<le> 100"
      by (auto simp: column_def num_field_def)
    from counts_eq [OF this]
    show "count_fully_up df + count_partially_up df + count_down df = length (rows df)"
      by (simp add: count_fully_up_def count_partially_up_def count_down_def len)
  qed
  have dis: "\<not> (fully_up v \<and> partially_up v) \<and> \<not> (fully_up v \<and> down v) \<and>
             \<not> (partially_up v \<and> down v)"
    by (cases v) auto
  have shown: "update_dashboard data sel = Inr d \<and> \<not> df_empty (DataFrame data) \<longrightarrow>
      rendered_counts (update_dashboard data sel) =
        [''Fully Up: '' @ str_nat (count_fully_up (DataFrame data)),
         ''Partially Up: '' @ str_nat (count_partially_up (DataFrame data)),
         ''Down: '' @ str_nat (count_down (DataFrame data))]"
    using dashboard_counts by blast
  from le eq dis shown three_try three_dashboard show ?thesis by blast
qed

text \<open>
  The frame of the three sample records: every success value is present and in range,
  and the counts add up to the three rows.
\<close>

theorem status_counts_partition_witness:
  "count_fully_up (DataFrame three_records) + count_partially_up (DataFrame three_records)
     + count_down (DataFrame three_records) = 3 \<and>
   length (rows (DataFrame three_records)) = 3"
proof -
  have rs: "map success (rows (DataFrame three_records)) = [Some 100, Some 50, Some 0]"
    by (simp add: three_records_def rows_DataFrame probe_of_reduced normalize_row_def
        probe_row_def)
  have n: "length (rows (DataFrame three_records)) = 3"
    by (simp add: three_records_def rows_DataFrame)
  have "\<forall>v \<in> set (map success (rows (DataFrame three_records))). \<exists>s. v = Some s \<and> 0 \<le> s \<and> s \<le> 100"
    unfolding rs by simp
  then have h: "\<forall>r \<in> set (rows (DataFrame three_records)). \<exists>s. success r = Some s \<and> 0 \<le> s \<and> s \<le> 100"
    by simp
  from status_counts_partition [of "DataFrame three_records"] h n show ?thesis by simp
qed

text \<open>
  C5 as stated fails. \<open>parse_log\<close> does not clip the success column: a stored success
  percentage of 150 reaches the dashboard, no success value is missing, and the three
  counts add up to 0 for one record.
\<close>

theorem status_counts_counterexample:
  "get_filtered_data_try overrange_store 0 ''all_time'' = Inr overrange_records \<and>
   length overrange_records = 1 \<and>
   map success (rows (DataFrame overrange_records)) = [Some 150] \<and>
   rendered_counts (update_dashboard overrange_records []) =
     [''Fully Up: 0'', ''Partially Up: 0'', ''Down: 0'']"
proof -
  have rs: "map success (rows (DataFrame overrange_records)) = [Some 150]"
    by (simp add: overrange_records_def rows_DataFrame probe_of_reduced normalize_row_def
        probe_row_def)
  show ?thesis
    using overrange_try [of 0] overrange_dashboard rs by (simp add: overrange_records_def)
qed

text \<open>
  C6. For the empty dataset \<open>update_dashboard\<close> takes its branch \<open>if df.empty\<close>: the
  three figures are empty dicts, the table has no rows, and the three counts are printed
  as zero, whatever metrics are selected.
\<close>

theorem empty_dataset_dashboard:
  "update_dashboard [] selected_latency_metrics =
     Inr \<lparr> success_fig = None, latency_fig = None, packetloss_fig = None, table_data = [],
           full_up_count = ''Fully Up: 0'', partial_up_count = ''Partially Up: 0'',
           down_count = ''Down: 0'' \<rparr>"
  by (simp add: update_dashboard_def DataFrame_def df_empty_def)

text \<open>
  A database that cannot be read: the fetch operation returns the empty list, and the
  dashboard made of it is the empty one.
\<close>

theorem empty_dataset_dashboard_witness:
  "get_filtered_data_try Unreadable 0 ''last_12_hours'' = Inr [] \<and>
   rendered_counts (update_dashboard [] [''avg_latency_ms'', ''max_latency_ms'']) =
     [''Fully Up: 0'', ''Partially Up: 0'', ''Down: 0'']"
  using empty_dataset_dashboard [of "[''avg_latency_ms'', ''max_latency_ms'']"]
  by (simp add: rendered_counts_def get_filtered_data_try_def parse_log_def parse_log_try_def
      read_sql_query_def empty_DataFrame_def df_empty_def)

end
